theory Spec2Isabelle
  imports Main
begin

section \<open>JavaScript values used by the session module\<close>

text \<open>
  A TypeScript \<open>number\<close> is a double. The numbers of this module are millisecond
  timestamps and second counts, so a finite number is modelled as an integer; the
  three non-finite doubles are kept, because the comparisons of \<open>getToken\<close> and
  \<open>JSON.stringify\<close> treat them differently from every finite number. Fractional
  doubles and rounding above \<open>2^53\<close> are outside the model.
\<close>

datatype js_number = Num int | NaN | PosInf | NegInf

fun js_neg :: "js_number \<Rightarrow> js_number" where
  "js_neg (Num a) = Num (- a)"
| "js_neg NaN = NaN"
| "js_neg PosInf = NegInf"
| "js_neg NegInf = PosInf"

fun js_add :: "js_number \<Rightarrow> js_number \<Rightarrow> js_number" where
  "js_add (Num a) (Num b) = Num (a + b)"
| "js_add NaN _ = NaN"
| "js_add _ NaN = NaN"
| "js_add PosInf NegInf = NaN"
| "js_add NegInf PosInf = NaN"
| "js_add PosInf _ = PosInf"
| "js_add NegInf _ = NegInf"
| "js_add (Num a) PosInf = PosInf"
| "js_add (Num a) NegInf = NegInf"

definition js_sub :: "js_number \<Rightarrow> js_number \<Rightarrow> js_number" where
  "js_sub a b = js_add a (js_neg b)"

fun js_sign :: "js_number \<Rightarrow> int" where
  "js_sign (Num a) = sgn a"
| "js_sign NaN = 0"
| "js_sign PosInf = 1"
| "js_sign NegInf = - 1"

fun js_mul :: "js_number \<Rightarrow> js_number \<Rightarrow> js_number" where
  "js_mul (Num a) (Num b) = Num (a * b)"
| "js_mul NaN _ = NaN"
| "js_mul _ NaN = NaN"
| "js_mul a b =
     (if js_sign a * js_sign b = 0 then NaN
      else if js_sign a * js_sign b > 0 then PosInf else NegInf)"

text \<open>The relational operators: every comparison with \<open>NaN\<close> is false.\<close>

fun js_lt :: "js_number \<Rightarrow> js_number \<Rightarrow> bool" where
  "js_lt (Num a) (Num b) = (a < b)"
| "js_lt NaN _ = False"
| "js_lt _ NaN = False"
| "js_lt NegInf NegInf = False"
| "js_lt NegInf _ = True"
| "js_lt _ NegInf = False"
| "js_lt PosInf _ = False"
| "js_lt (Num a) PosInf = True"

definition js_gt :: "js_number \<Rightarrow> js_number \<Rightarrow> bool" where
  "js_gt a b = js_lt b a"

definition js_le :: "js_number \<Rightarrow> js_number \<Rightarrow> bool" where
  "js_le a b = (a \<noteq> NaN \<and> b \<noteq> NaN \<and> \<not> js_lt b a)"

text \<open>Truthiness of a number (\<open>0\<close> and \<open>NaN\<close> are falsy) and of a string.\<close>

fun truthy_number :: "js_number \<Rightarrow> bool" where
  "truthy_number (Num a) = (a \<noteq> 0)"
| "truthy_number NaN = False"
| "truthy_number PosInf = True"
| "truthy_number NegInf = True"

definition truthy_string :: "string \<Rightarrow> bool" where
  "truthy_string s = (s \<noteq> [])"

text \<open>
  The values that reach \<open>JSON.stringify\<close> and come back from \<open>JSON.parse\<close> here:
  \<open>null\<close>, strings, numbers and plain objects (properties in insertion order).
\<close>

datatype js_value =
    JSNull
  | JSString string
  | JSNumber js_number
  | JSObject "(string \<times> js_value) list"

text \<open>
  \<open>JSON.stringify\<close> and \<open>JSON.parse\<close> are built-ins of the platform. A JSON text is
  represented by its abstract syntax (the concrete characters, escapes and digits are
  the platform's); what the model keeps is which values have a JSON form: a JSON
  number is finite, and \<open>JSON.stringify\<close> writes \<open>null\<close> for \<open>NaN\<close> and the infinities.
\<close>

datatype json =
    JsonNull
  | JsonString string
  | JsonNumber int
  | JsonObject "(string \<times> json) list"

fun stringify_number :: "js_number \<Rightarrow> json" where
  "stringify_number (Num a) = JsonNumber a"
| "stringify_number NaN = JsonNull"
| "stringify_number PosInf = JsonNull"
| "stringify_number NegInf = JsonNull"

primrec JSON_stringify :: "js_value \<Rightarrow> json" where
  "JSON_stringify JSNull = JsonNull"
| "JSON_stringify (JSString s) = JsonString s"
| "JSON_stringify (JSNumber n) = stringify_number n"
| "JSON_stringify (JSObject kvs) = JsonObject (map (map_prod (\<lambda>k. k) JSON_stringify) kvs)"

primrec JSON_parse :: "json \<Rightarrow> js_value" where
  "JSON_parse JsonNull = JSNull"
| "JSON_parse (JsonString s) = JSString s"
| "JSON_parse (JsonNumber a) = JSNumber (Num a)"
| "JSON_parse (JsonObject kvs) = JSObject (map (map_prod (\<lambda>k. k) JSON_parse) kvs)"

section \<open>The token store\<close>

text \<open>The type of the module variable \<open>tokens\<close> (without its \<open>null\<close>).\<close>

record tokenset =
  refreshToken :: string
  accessToken :: string
  accessTokenExpiry :: js_number

text \<open>The JavaScript value of \<open>tokens\<close>: \<open>null\<close>, or the object with its three properties.\<close>

definition tokens_value :: "tokenset option \<Rightarrow> js_value" where
  "tokens_value ts =
     (case ts of
        None \<Rightarrow> JSNull
      | Some t \<Rightarrow> JSObject
          [(''refreshToken'', JSString (refreshToken t)),
           (''accessToken'', JSString (accessToken t)),
           (''accessTokenExpiry'', JSNumber (accessTokenExpiry t))])"

text \<open>
  \<open>localStorage\<close>, with the two keys the module uses: \<open>'tokens'\<close> holds a JSON text,
  \<open>'last_jwt'\<close> a raw string. \<open>None\<close> is a key that was never set (\<open>getItem\<close> gives \<open>null\<close>).
\<close>

record local_storage =
  tokens_item :: "json option"
  last_jwt_item :: "string option"

text \<open>
  The initial value of \<open>tokens\<close>: \<open>JSON.parse(localStorage.getItem('tokens')!)\<close>.
  \<open>JSON.parse(null)\<close> parses the text \<open>null\<close>.
\<close>

definition initial_tokens :: "local_storage \<Rightarrow> js_value" where
  "initial_tokens ls =
     JSON_parse (case tokens_item ls of None \<Rightarrow> JsonNull | Some j \<Rightarrow> j)"

section \<open>Promises, errors and the state of the module\<close>

datatype error =
    NotLoggedIn         \<comment> \<open>\<open>Error("Can't refresh tokens if we're not logged in")\<close>\<close>
  | RefreshError string \<comment> \<open>the error \<open>auth0Client.oauthToken\<close> passes to its callback\<close>
  | TypeError           \<comment> \<open>a property of \<open>null\<close> is written\<close>
  | FetchError string   \<comment> \<open>\<open>fetch\<close> or \<open>text()\<close> rejects\<close>
  | JwtError string     \<comment> \<open>\<open>jwt.verify\<close> throws\<close>

text \<open>How a promise settles.\<close>

datatype 'a settled = Resolved 'a | Rejected error

text \<open>
  What the promise of \<open>getToken()\<close> resolves to: declared \<open>string | undefined\<close>; the
  \<open>null\<close> is the value of \<open>refreshPromise!\<close> when no refresh was started.
\<close>

datatype tok = TokStr string | TokUndefined | TokNull

text \<open>
  The promise \<open>refreshToken()\<close> returns: already rejected (the \<open>throw\<close> of the async
  function), or waiting for the callback of request number \<open>n\<close>.
\<close>

datatype promise = Failed error | Pending nat

text \<open>What the callback given to \<open>runExclusive\<close> returns: a value or a promise.\<close>

datatype cb_result = Value tok | Awaited promise

text \<open>A callback waiting for \<open>tokenMutex\<close>.\<close>

datatype task = SetTokensTask "tokenset option" | GetTokenTask nat

record state =
  tokens :: "tokenset option"
  localStorage :: local_storage
  locked :: bool                  \<comment> \<open>\<open>tokenMutex\<close> is held\<close>
  waiting :: "task list"          \<comment> \<open>callbacks queued on \<open>tokenMutex\<close>, oldest first\<close>
  awaiting :: "(nat \<times> nat) option" \<comment> \<open>the \<open>getToken\<close> call holding the mutex, and the request it awaits\<close>
  oauth_calls :: "string list"    \<comment> \<open>the refresh token of every \<open>oauthToken\<close> call; a request's number is its index\<close>
  pending :: "nat list"           \<comment> \<open>requests whose callback has not run\<close>
  results :: "nat \<rightharpoonup> tok settled" \<comment> \<open>the settled promises of the \<open>getToken\<close> calls\<close>
  unhandled :: "error list"       \<comment> \<open>rejections of promises nobody handles\<close>
  uncaught :: "error list"        \<comment> \<open>exceptions thrown out of a callback\<close>
  reported :: "error list"        \<comment> \<open>the calls of \<open>reportError\<close>\<close>
  emitted :: "(string \<times> error) list" \<comment> \<open>the events emitted on \<open>loginEvents\<close> with an error\<close>
  warnings :: "error list"        \<comment> \<open>the calls of \<open>console.warn\<close>\<close>

section \<open>\<open>setTokens\<close>, \<open>refreshToken\<close> and \<open>getToken\<close>\<close>

text \<open>The callback of \<open>setTokens\<close>, run inside \<open>tokenMutex\<close>.\<close>

definition setTokens :: "tokenset option \<Rightarrow> state \<Rightarrow> state" where
  "setTokens newTokens s =
     s\<lparr>tokens := newTokens,
       localStorage := (localStorage s)\<lparr>tokens_item := Some (JSON_stringify (tokens_value newTokens))\<rparr>\<rparr>"

text \<open>
  \<open>refreshToken()\<close> up to its return: it throws when logged out, otherwise it calls
  \<open>auth0Client.oauthToken\<close> with the current refresh token and returns the promise
  that the callback of this request settles.
\<close>

definition refreshToken_fn :: "state \<Rightarrow> promise \<times> state" where
  "refreshToken_fn s =
     (case tokens s of
        None \<Rightarrow> (Failed NotLoggedIn, s)
      | Some t \<Rightarrow>
          (Pending (length (oauth_calls s)),
           s\<lparr>oauth_calls := oauth_calls s @ [refreshToken t],
             pending := pending s @ [length (oauth_calls s)]\<rparr>))"

text \<open>
  The callback \<open>refreshToken\<close> gives to \<open>oauthToken\<close>, run at time \<open>now\<close> with an error
  (\<open>Inl\<close>) or with \<open>accessToken\<close> and \<open>expiresIn\<close> (\<open>Inr\<close>). It returns how it settles the
  promise; \<open>None\<close> when it throws first: \<open>tokens!.accessToken = ...\<close> with \<open>tokens\<close> null.
\<close>

definition oauth_callback ::
  "int \<Rightarrow> error + string \<times> js_number \<Rightarrow> state \<Rightarrow> string settled option \<times> state" where
  "oauth_callback now r s =
     (case r of
        Inl err \<Rightarrow> (Some (Rejected err), s)
      | Inr (newToken, expiresIn) \<Rightarrow>
          (case tokens s of
             None \<Rightarrow> (None, s\<lparr>uncaught := uncaught s @ [TypeError]\<rparr>)
           | Some t \<Rightarrow>
               (let t' = t\<lparr>accessToken := newToken,
                          accessTokenExpiry := js_add (Num now) (js_mul expiresIn (Num 1000))\<rparr>
                in (Some (Resolved newToken),
                    s\<lparr>tokens := Some t',
                      localStorage := (localStorage s)
                        \<lparr>tokens_item := Some (JSON_stringify (tokens_value (Some t')))\<rparr>\<rparr>))))"

text \<open>A promise that is dropped: its rejection has no handler.\<close>

definition drop_promise :: "promise option \<Rightarrow> state \<Rightarrow> state" where
  "drop_promise p s =
     (case p of
        Some (Failed e) \<Rightarrow> s\<lparr>unhandled := unhandled s @ [e]\<rparr>
      | _ \<Rightarrow> s)"

text \<open>The callback of \<open>getToken\<close>, run inside \<open>tokenMutex\<close> at time \<open>now\<close>.\<close>

definition getToken_body :: "int \<Rightarrow> state \<Rightarrow> cb_result \<times> state" where
  "getToken_body now s =
     (case tokens s of
        None \<Rightarrow> (Value TokUndefined, s)
      | Some t \<Rightarrow>
          (let timeUntilExpiry = js_sub (accessTokenExpiry t) (Num now);
               (refreshPromise, s1) =
                  (if js_lt timeUntilExpiry (Num (1000 * 60 * 10))
                   then (case refreshToken_fn s of (p, s') \<Rightarrow> (Some p, s'))
                   else (None, s))
           in if js_gt timeUntilExpiry (Num (1000 * 5))
              then (Value (TokStr (accessToken t)), drop_promise refreshPromise s1)
              else (case refreshPromise of
                      None \<Rightarrow> (Value TokNull, s1)
                    | Some p \<Rightarrow> (Awaited p, s1))))"

section \<open>\<open>tokenMutex\<close> and the events of the module\<close>

text \<open>
  \<open>runExclusive\<close> of async-mutex: callbacks run one at a time, in the order of the
  calls; the mutex is released when the callback has returned and, if it returned a
  promise, when that promise has settled. \<open>run_task\<close> runs one callback with the mutex
  free: a callback that returns a value, or a settled promise, gives the mutex back at
  once; one that returns a pending promise keeps it.
\<close>

definition run_task :: "int \<Rightarrow> task \<Rightarrow> state \<Rightarrow> state" where
  "run_task now t s =
     (case t of
        SetTokensTask newTokens \<Rightarrow> setTokens newTokens s
      | GetTokenTask c \<Rightarrow>
          (case getToken_body now s of
             (Value v, s1) \<Rightarrow> s1\<lparr>results := (results s1)(c \<mapsto> Resolved v)\<rparr>
           | (Awaited (Failed e), s1) \<Rightarrow> s1\<lparr>results := (results s1)(c \<mapsto> Rejected e)\<rparr>
           | (Awaited (Pending r), s1) \<Rightarrow> s1\<lparr>locked := True, awaiting := Some (c, r)\<rparr>))"

fun dispatch :: "int \<Rightarrow> task list \<Rightarrow> state \<Rightarrow> state" where
  "dispatch now [] s = s\<lparr>waiting := []\<rparr>"
| "dispatch now (t # ts) s =
     (if locked s then s\<lparr>waiting := t # ts\<rparr> else dispatch now ts (run_task now t s))"

definition runExclusive :: "int \<Rightarrow> task \<Rightarrow> state \<Rightarrow> state" where
  "runExclusive now t s = dispatch now (waiting s @ [t]) s"

definition release :: "int \<Rightarrow> state \<Rightarrow> state" where
  "release now s = dispatch now (waiting s) (s\<lparr>locked := False, awaiting := None\<rparr>)"

text \<open>A refresh promise settles and no \<open>getToken\<close> call awaits it.\<close>

definition orphan :: "string settled \<Rightarrow> state \<Rightarrow> state" where
  "orphan out s =
     (case out of
        Rejected e \<Rightarrow> s\<lparr>unhandled := unhandled s @ [e]\<rparr>
      | Resolved _ \<Rightarrow> s)"

definition tok_of :: "string settled \<Rightarrow> tok settled" where
  "tok_of out = (case out of Resolved a \<Rightarrow> Resolved (TokStr a) | Rejected e \<Rightarrow> Rejected e)"

text \<open>
  What happens to the module, one event at a time (JavaScript runs each to completion):
  a call of \<open>getToken()\<close> (the number names the promise returned), the \<open>authenticated\<close>
  event of the login widget, \<open>logOut()\<close>, and the answer to an \<open>oauthToken\<close> request.
\<close>

datatype event =
    GetTokenCall nat
  | Authenticated string string js_number \<comment> \<open>\<open>accessToken\<close>, \<open>refreshToken\<close>, \<open>expiresIn\<close>\<close>
  | LogOut
  | OauthResponse nat "error + string \<times> js_number"

definition step :: "int \<Rightarrow> event \<Rightarrow> state \<Rightarrow> state" where
  "step now ev s =
     (case ev of
        GetTokenCall c \<Rightarrow> runExclusive now (GetTokenTask c) s
      | Authenticated a r expiresIn \<Rightarrow>
          runExclusive now
            (SetTokensTask (Some \<lparr>refreshToken = r, accessToken = a,
               accessTokenExpiry = js_add (Num now) (js_mul expiresIn (Num 1000))\<rparr>)) s
      | LogOut \<Rightarrow> runExclusive now (SetTokensTask None) s
      | OauthResponse r resp \<Rightarrow>
          (if r \<notin> set (pending s) then s
           else
             (case oauth_callback now resp (s\<lparr>pending := removeAll r (pending s)\<rparr>) of
                (None, s1) \<Rightarrow> s1
              | (Some out, s1) \<Rightarrow>
                  (case awaiting s1 of
                     None \<Rightarrow> orphan out s1
                   | Some (c, r') \<Rightarrow>
                       (if r' = r
                        then release now (s1\<lparr>results := (results s1)(c \<mapsto> tok_of out)\<rparr>)
                        else orphan out s1)))))"

fun run :: "(int \<times> event) list \<Rightarrow> state \<Rightarrow> state" where
  "run [] s = s"
| "run ((now, ev) # evs) s = run evs (step now ev s)"

text \<open>The module is idle: nobody holds or waits for \<open>tokenMutex\<close>.\<close>

definition idle :: "state \<Rightarrow> bool" where
  "idle s = (\<not> locked s \<and> waiting s = [] \<and> awaiting s = None)"

section \<open>The user data\<close>

text \<open>The interface \<open>AppData\<close>: the payload of the signed token, as the source types it.\<close>

record AppData =
  email :: string
  subscription_id :: js_number
  subscription_plan_id :: js_number
  subscription_expiry :: js_number

text \<open>
  A \<open>Date\<close> object with its time value. \<open>new Date(n)\<close> clips: a number that is not finite,
  or beyond 8.64e15 ms, gives the invalid date, whose time value is \<open>NaN\<close>.
\<close>

datatype js_date = Date js_number

fun new_Date :: "js_number \<Rightarrow> js_date" where
  "new_Date (Num a) = (if \<bar>a\<bar> \<le> 8640000000000000 then Date (Num a) else Date NaN)"
| "new_Date NaN = Date NaN"
| "new_Date PosInf = Date NaN"
| "new_Date NegInf = Date NaN"

text \<open>
  The object \<open>subscription\<close> of \<open>parseUserData\<close>; \<open>'p\<close> is \<open>SubscriptionPlanCode\<close>. Its \<open>plan\<close>
  is \<open>undefined\<close> (\<open>None\<close>) when the lookup finds nothing: the \<open>!\<close> after the call checks
  nothing at run time.
\<close>

record 'p subscription =
  id' :: js_number
  plan :: "'p option"
  expiry :: js_date

text \<open>The type \<open>User\<close>: both properties are optional.\<close>

record 'p User =
  email :: "string option"
  subscription :: "'p subscription option"

text \<open>
  The answer to the \<open>GET\<close> of the app data: its HTTP status and the text of its body.
  \<open>fetch\<close> resolves for every status; the module never looks at \<open>response.ok\<close>.
\<close>

record response =
  status :: nat
  body :: string

text \<open>
  What the module takes from outside: \<open>jwt.verify\<close> with the fixed key and options (it
  returns the payload or throws), \<open>getSubscriptionPlanCode\<close> and the truthiness of a plan
  code (module \<open>./subscriptions\<close>), and the \<open>GET\<close> of the app data with the bearer token
  given, up to \<open>text()\<close>: rejected when \<open>fetch\<close> or \<open>text()\<close> rejects.
\<close>

record 'p env =
  jwt_verify :: "string \<Rightarrow> error + AppData"
  getSubscriptionPlanCode :: "js_number \<Rightarrow> 'p option"
  truthy_plan :: "'p \<Rightarrow> bool"
  fetch_app_data :: "string \<Rightarrow> response settled"

text \<open>\<open>_.every(subscription)\<close>: every property value is truthy; a \<open>Date\<close> object always is.\<close>

definition truthy_date :: "js_date \<Rightarrow> bool" where
  "truthy_date d = True"

definition every :: "'p env \<Rightarrow> 'p subscription \<Rightarrow> bool" where
  "every env sub =
     (truthy_number (id' sub)
      \<and> (case plan sub of None \<Rightarrow> False | Some p \<Rightarrow> truthy_plan env p)
      \<and> truthy_date (expiry sub))"

definition parseUserData :: "'p env \<Rightarrow> string option \<Rightarrow> error + 'p User" where
  "parseUserData env userJwt =
     (case userJwt of
        None \<Rightarrow> Inr \<lparr>email = None, subscription = None\<rparr>
      | Some j \<Rightarrow>
          (if \<not> truthy_string j then Inr \<lparr>email = None, subscription = None\<rparr>
           else
             (case jwt_verify env j of
                Inl e \<Rightarrow> Inl e
              | Inr appData \<Rightarrow>
                  (let subscription =
                         \<lparr>id' = subscription_id appData,
                          plan = getSubscriptionPlanCode env (subscription_plan_id appData),
                          expiry = new_Date (subscription_expiry appData)\<rparr>
                   in Inr \<lparr>email = Some (AppData.email appData),
                           subscription =
                             (if every env subscription then Some subscription else None)\<rparr>))))"

definition getLastUserData :: "'p env \<Rightarrow> state \<Rightarrow> 'p User \<times> state" where
  "getLastUserData env s =
     (case parseUserData env (last_jwt_item (localStorage s)) of
        Inr u \<Rightarrow> (u, s)
      | Inl e \<Rightarrow> (\<lparr>email = None, subscription = None\<rparr>, s\<lparr>warnings := warnings s @ [e]\<rparr>))"

text \<open>\<open>!token\<close>: \<open>undefined\<close>, \<open>null\<close> and the empty string are falsy.\<close>

fun truthy_tok :: "tok \<Rightarrow> bool" where
  "truthy_tok (TokStr a) = truthy_string a"
| "truthy_tok TokUndefined = False"
| "truthy_tok TokNull = False"

text \<open>The token as the template string \<open>`Bearer ${token}`\<close> prints it.\<close>

fun tok_string :: "tok \<Rightarrow> string" where
  "tok_string (TokStr a) = a"
| "tok_string TokUndefined = ''undefined''"
| "tok_string TokNull = ''null''"

text \<open>
  \<open>requestUserData\<close>, given how the promise of \<open>getToken()\<close> settles: a rejection is
  thrown on by the \<open>await\<close>.
\<close>

definition requestUserData :: "'p env \<Rightarrow> tok settled \<Rightarrow> error + string" where
  "requestUserData env token_outcome =
     (case token_outcome of
        Rejected e \<Rightarrow> Inl e
      | Resolved token \<Rightarrow>
          (if \<not> truthy_tok token then Inr []
           else
             (case fetch_app_data env (tok_string token) of
                Rejected e \<Rightarrow> Inl e
              | Resolved appDataResponse \<Rightarrow> Inr (body appDataResponse))))"

text \<open>The \<open>try\<close> block of \<open>getLatestUserData\<close>: \<open>Inl\<close> is the exception it throws.\<close>

definition try_block :: "'p env \<Rightarrow> tok settled \<Rightarrow> state \<Rightarrow> error + 'p User \<times> state" where
  "try_block env token_outcome s =
     (case requestUserData env token_outcome of
        Inl e \<Rightarrow> Inl e
      | Inr userJwt \<Rightarrow>
          (case parseUserData env (Some userJwt) of
             Inl e \<Rightarrow> Inl e
           | Inr userData \<Rightarrow>
               Inr (userData,
                    s\<lparr>localStorage := (localStorage s)\<lparr>last_jwt_item := Some userJwt\<rparr>\<rparr>)))"

text \<open>The \<open>catch\<close> block.\<close>

definition catch_block :: "error \<Rightarrow> 'p User \<Rightarrow> state \<Rightarrow> 'p User settled \<times> state" where
  "catch_block e lastUserData s =
     (Resolved lastUserData,
      s\<lparr>reported := reported s @ [e],
        emitted := emitted s @ [(''authorization_error'', e)]\<rparr>)"

text \<open>
  \<open>getLatestUserData\<close>, given how the promise of \<open>getToken()\<close> settles. The result is the
  way its own promise settles, and the state after it.
\<close>

definition getLatestUserData :: "'p env \<Rightarrow> tok settled \<Rightarrow> state \<Rightarrow> 'p User settled \<times> state" where
  "getLatestUserData env token_outcome s =
     (case getLastUserData env s of
        (lastUserData, s0) \<Rightarrow>
          (case try_block env token_outcome s0 of
             Inr (userData, s1) \<Rightarrow> (Resolved userData, s1)
           | Inl e \<Rightarrow> catch_block e lastUserData s0))"

section \<open>Concrete states and collaborators\<close>

text \<open>The module right after loading, with nothing in \<open>localStorage\<close>.\<close>

definition fresh_state :: state where
  "fresh_state =
     \<lparr>tokens = None,
      localStorage = \<lparr>tokens_item = None, last_jwt_item = None\<rparr>,
      locked = False, waiting = [], awaiting = None,
      oauth_calls = [], pending = [], results = Map.empty,
      unhandled = [], uncaught = [], reported = [], emitted = [], warnings = []\<rparr>"

text \<open>The idle module holding the token set \<open>t\<close>, stored as \<open>setTokens\<close> stores it.\<close>

definition logged_in :: "tokenset \<Rightarrow> state" where
  "logged_in t = setTokens (Some t) fresh_state"

definition session :: "js_number \<Rightarrow> tokenset" where
  "session e = \<lparr>refreshToken = ''R'', accessToken = ''A'', accessTokenExpiry = e\<rparr>"

text \<open>
  Collaborators for the examples: a verifier that accepts two tokens (a subscriber on
  plan 1, and a payload with the unknown plan 99), a plan table with the one plan 1,
  and an endpoint that answers the access token \<open>A\<close> only.
\<close>

definition demo_env :: "string env" where
  "demo_env =
     \<lparr>jwt_verify = (\<lambda>j.
        if j = ''good.jwt''
        then Inr \<lparr>AppData.email = ''a@b.c'', subscription_id = Num 7,
                  subscription_plan_id = Num 1, subscription_expiry = Num 1700000000000\<rparr>
        else if j = ''odd.jwt''
        then Inr \<lparr>AppData.email = ''a@b.c'', subscription_id = Num 7,
                  subscription_plan_id = Num 99, subscription_expiry = Num 1700000000000\<rparr>
        else Inl (JwtError ''invalid token'')),
      getSubscriptionPlanCode = (\<lambda>n. if n = Num 1 then Some ''pro-monthly'' else None),
      truthy_plan = truthy_string,
      fetch_app_data = (\<lambda>a.
        if a = ''A'' then Resolved \<lparr>status = 200, body = ''good.jwt''\<rparr>
        else Rejected (FetchError ''network''))\<rparr>"

text \<open>The same collaborators, with an endpoint that answers 500 and an empty body.\<close>

definition outage_env :: "string env" where
  "outage_env = demo_env\<lparr>fetch_app_data := (\<lambda>a. Resolved \<lparr>status = 500, body = []\<rparr>)\<rparr>"

text \<open>The same collaborators, with an endpoint that answers a token that does not verify.\<close>

definition tampered_env :: "string env" where
  "tampered_env =
     demo_env\<lparr>fetch_app_data := (\<lambda>a. Resolved \<lparr>status = 200, body = ''bad.jwt''\<rparr>)\<rparr>"

text \<open>The fresh module with \<open>j\<close> stored under \<open>'last_jwt'\<close>: logged out, idle.\<close>

definition remembered :: "string \<Rightarrow> state" where
  "remembered j =
     fresh_state\<lparr>localStorage := \<lparr>tokens_item = None, last_jwt_item = Some j\<rparr>\<rparr>"

text \<open>
  A logged-in subscriber: the token set is good for an hour, and the signed token of
  the last successful fetch is stored under \<open>'last_jwt'\<close>.
\<close>

definition subscriber :: state where
  "subscriber =
     (logged_in (session (Num 3600000)))
       \<lparr>localStorage := (localStorage (logged_in (session (Num 3600000))))
          \<lparr>last_jwt_item := Some ''good.jwt''\<rparr>\<rparr>"

section \<open>Facts about the definitions\<close>

lemma js_le_5s_lt_10min: "js_le x (Num 5000) \<Longrightarrow> js_lt x (Num 600000)"
  by (cases x) (simp_all add: js_le_def)

lemma js_le_not_gt: "js_le x y \<Longrightarrow> \<not> js_gt x y"
  by (simp add: js_le_def js_gt_def)

lemma logged_in_fields:
  "tokens (logged_in t) = Some t"
  "locked (logged_in t) = False"
  "waiting (logged_in t) = []"
  "awaiting (logged_in t) = None"
  "oauth_calls (logged_in t) = []"
  "pending (logged_in t) = []"
  "results (logged_in t) = Map.empty"
  "unhandled (logged_in t) = []"
  "uncaught (logged_in t) = []"
  by (simp_all add: logged_in_def setTokens_def fresh_state_def)

lemma idle_logged_in: "idle (logged_in t)"
  by (simp add: idle_def logged_in_fields)

lemma session_fields:
  "refreshToken (session e) = ''R''"
  "accessToken (session e) = ''A''"
  "accessTokenExpiry (session e) = e"
  by (simp_all add: session_def)

text \<open>The callback of \<open>getToken\<close> in its two refreshing cases.\<close>

lemma getToken_body_blocking:
  assumes "tokens s = Some t"
    and "js_le (js_sub (accessTokenExpiry t) (Num now)) (Num 5000)"
  shows "getToken_body now s =
     (Awaited (Pending (length (oauth_calls s))),
      s\<lparr>oauth_calls := oauth_calls s @ [refreshToken t],
        pending := pending s @ [length (oauth_calls s)]\<rparr>)"
  using assms js_le_5s_lt_10min[OF assms(2)] js_le_not_gt[OF assms(2)]
  by (simp add: getToken_body_def refreshToken_fn_def)

lemma getToken_body_background:
  assumes "tokens s = Some t"
    and "js_gt (js_sub (accessTokenExpiry t) (Num now)) (Num 5000)"
    and "js_lt (js_sub (accessTokenExpiry t) (Num now)) (Num 600000)"
  shows "getToken_body now s =
     (Value (TokStr (accessToken t)),
      s\<lparr>oauth_calls := oauth_calls s @ [refreshToken t],
        pending := pending s @ [length (oauth_calls s)]\<rparr>)"
  using assms
  by (simp add: getToken_body_def refreshToken_fn_def drop_promise_def)

text \<open>A call of \<open>getToken()\<close> while the module is idle, in the same two cases.\<close>

lemma step_getToken_blocking:
  assumes "tokens s = Some t" and "idle s"
    and "js_le (js_sub (accessTokenExpiry t) (Num now)) (Num 5000)"
  shows "step now (GetTokenCall c) s =
     s\<lparr>oauth_calls := oauth_calls s @ [refreshToken t],
       pending := pending s @ [length (oauth_calls s)],
       locked := True, awaiting := Some (c, length (oauth_calls s))\<rparr>"
  using assms(2) getToken_body_blocking[OF assms(1,3)]
  by (simp add: step_def runExclusive_def run_task_def idle_def)

lemma step_getToken_background:
  assumes "tokens s = Some t" and "idle s"
    and "js_gt (js_sub (accessTokenExpiry t) (Num now)) (Num 5000)"
    and "js_lt (js_sub (accessTokenExpiry t) (Num now)) (Num 600000)"
  shows "step now (GetTokenCall c) s =
     s\<lparr>oauth_calls := oauth_calls s @ [refreshToken t],
       pending := pending s @ [length (oauth_calls s)],
       results := (results s)(c \<mapsto> Resolved (TokStr (accessToken t)))\<rparr>"
  using assms(2) getToken_body_background[OF assms(1,3,4)]
  by (simp add: step_def runExclusive_def run_task_def idle_def)

section \<open>The claims\<close>

text \<open>
  C1. With a token set whose expiry is at most 5 seconds away, a call of \<open>getToken()\<close>
  on the idle module starts one refresh and does not settle: its promise is the one of
  the refresh, and the mutex stays held. When the refresh succeeds, the call resolves
  to the new access token (which is also stored); when it fails, the call rejects with
  the error of the refresh. Both thresholds hold here (at most 5 seconds is less than
  10 minutes), and the cached token is not returned.
\<close>

theorem getToken_blocking_refresh:
  assumes "tokens s = Some t" and "idle s"
    and "js_le (js_sub (accessTokenExpiry t) (Num now)) (Num 5000)"
  shows "awaiting (step now (GetTokenCall c) s) = Some (c, length (oauth_calls s))
     \<and> locked (step now (GetTokenCall c) s)
     \<and> results (step now (GetTokenCall c) s) = results s
     \<and> oauth_calls (step now (GetTokenCall c) s) = oauth_calls s @ [refreshToken t]
     \<and> results (step now' (OauthResponse (length (oauth_calls s)) (Inr (a, expiresIn)))
          (step now (GetTokenCall c) s)) c = Some (Resolved (TokStr a))
     \<and> tokens (step now' (OauthResponse (length (oauth_calls s)) (Inr (a, expiresIn)))
          (step now (GetTokenCall c) s))
         = Some (t\<lparr>accessToken := a,
                   accessTokenExpiry := js_add (Num now') (js_mul expiresIn (Num 1000))\<rparr>)
     \<and> results (step now' (OauthResponse (length (oauth_calls s)) (Inl e))
          (step now (GetTokenCall c) s)) c = Some (Rejected e)"
  using assms(1,2) unfolding step_getToken_blocking[OF assms]
  by (simp add: step_def oauth_callback_def release_def tok_of_def idle_def Let_def)

theorem getToken_blocking_refresh_witness:
  "tokens (logged_in (session (Num 3000))) = Some (session (Num 3000))
   \<and> idle (logged_in (session (Num 3000)))
   \<and> js_le (js_sub (accessTokenExpiry (session (Num 3000))) (Num 0)) (Num 5000)
   \<and> results (step 0 (GetTokenCall 0) (logged_in (session (Num 3000)))) 0 = None
   \<and> results (step 1 (OauthResponse 0 (Inr (''B'', Num 3600)))
        (step 0 (GetTokenCall 0) (logged_in (session (Num 3000))))) 0
       = Some (Resolved (TokStr ''B''))
   \<and> results (step 1 (OauthResponse 0 (Inl (RefreshError ''invalid_grant'')))
        (step 0 (GetTokenCall 0) (logged_in (session (Num 3000))))) 0
       = Some (Rejected (RefreshError ''invalid_grant''))"
proof -
  have h1: "tokens (logged_in (session (Num 3000))) = Some (session (Num 3000))"
    by (simp add: logged_in_fields)
  have h2: "idle (logged_in (session (Num 3000)))"
    by (rule idle_logged_in)
  have h3: "js_le (js_sub (accessTokenExpiry (session (Num 3000))) (Num 0)) (Num 5000)"
    by (simp add: session_fields js_le_def js_sub_def)
  show ?thesis
    using h1 h2 h3
      getToken_blocking_refresh [OF h1 h2 h3, of 0 1 "''B''" "Num 3600"
        "RefreshError ''invalid_grant''"]
    by (simp add: logged_in_fields)
qed

text \<open>
  C2. With a token set whose expiry is more than 5 seconds and less than 10 minutes
  away, a call of \<open>getToken()\<close> on the idle module resolves to the cached access token,
  and makes exactly one \<open>oauthToken\<close> call, with the current refresh token; the token
  set is untouched and the mutex is free again.
\<close>

theorem getToken_cached_and_one_refresh:
  assumes "tokens s = Some t" and "idle s"
    and "js_gt (js_sub (accessTokenExpiry t) (Num now)) (Num 5000)"
    and "js_lt (js_sub (accessTokenExpiry t) (Num now)) (Num 600000)"
  shows "results (step now (GetTokenCall c) s) c = Some (Resolved (TokStr (accessToken t)))
     \<and> oauth_calls (step now (GetTokenCall c) s) = oauth_calls s @ [refreshToken t]
     \<and> pending (step now (GetTokenCall c) s) = pending s @ [length (oauth_calls s)]
     \<and> tokens (step now (GetTokenCall c) s) = Some t
     \<and> idle (step now (GetTokenCall c) s)"
  using assms(1,2) unfolding step_getToken_background[OF assms]
  by (simp add: idle_def)

theorem getToken_cached_and_one_refresh_witness:
  "tokens (logged_in (session (Num 60000))) = Some (session (Num 60000))
   \<and> idle (logged_in (session (Num 60000)))
   \<and> js_gt (js_sub (accessTokenExpiry (session (Num 60000))) (Num 0)) (Num 5000)
   \<and> js_lt (js_sub (accessTokenExpiry (session (Num 60000))) (Num 0)) (Num 600000)
   \<and> results (step 0 (GetTokenCall 0) (logged_in (session (Num 60000)))) 0
       = Some (Resolved (TokStr ''A''))
   \<and> oauth_calls (step 0 (GetTokenCall 0) (logged_in (session (Num 60000)))) = [''R'']"
proof -
  have h1: "tokens (logged_in (session (Num 60000))) = Some (session (Num 60000))"
    by (simp add: logged_in_fields)
  have h2: "idle (logged_in (session (Num 60000)))"
    by (rule idle_logged_in)
  have h3: "js_gt (js_sub (accessTokenExpiry (session (Num 60000))) (Num 0)) (Num 5000)"
    by (simp add: session_fields js_gt_def js_sub_def)
  have h4: "js_lt (js_sub (accessTokenExpiry (session (Num 60000))) (Num 0)) (Num 600000)"
    by (simp add: session_fields js_sub_def)
  show ?thesis
    using h1 h2 h3 h4 getToken_cached_and_one_refresh [OF h1 h2 h3 h4, of 0]
    by (simp add: logged_in_fields session_fields)
qed

text \<open>
  C6, as stated, fails in its middle part: the failure of a background refresh is not
  logged or reported by the module. At a concrete run (expiry 60 seconds away, the
  refresh answered with an error) the call keeps its cached token, \<open>reportError\<close> and
  \<open>console.warn\<close> were never called and nothing was emitted: the rejection has no handler.
\<close>

theorem background_refresh_failure_not_reported_counterexample:
  "results (run [(0, GetTokenCall 0), (9, OauthResponse 0 (Inl (RefreshError ''invalid_grant'')))]
      (logged_in (session (Num 60000)))) 0 = Some (Resolved (TokStr ''A''))
   \<and> reported (run [(0, GetTokenCall 0), (9, OauthResponse 0 (Inl (RefreshError ''invalid_grant'')))]
      (logged_in (session (Num 60000)))) = []
   \<and> warnings (run [(0, GetTokenCall 0), (9, OauthResponse 0 (Inl (RefreshError ''invalid_grant'')))]
      (logged_in (session (Num 60000)))) = []
   \<and> emitted (run [(0, GetTokenCall 0), (9, OauthResponse 0 (Inl (RefreshError ''invalid_grant'')))]
      (logged_in (session (Num 60000)))) = []
   \<and> unhandled (run [(0, GetTokenCall 0), (9, OauthResponse 0 (Inl (RefreshError ''invalid_grant'')))]
      (logged_in (session (Num 60000)))) = [RefreshError ''invalid_grant'']"
  by (simp add: step_def runExclusive_def run_task_def setTokens_def fresh_state_def
      getToken_body_def refreshToken_fn_def drop_promise_def oauth_callback_def orphan_def
      session_def js_sub_def js_gt_def logged_in_def Let_def)

text \<open>
  C6, amended. A call of \<open>getToken()\<close> that returned the cached token (expiry between 5
  seconds and 10 minutes away) has left its refresh in the background. When that
  refresh fails, the promise of the call is still resolved to the cached token: the
  error reaches no caller. The module neither logs nor reports it: \<open>reportError\<close> and
  \<open>console.warn\<close> are not called and nothing is emitted; the rejected promise has no
  handler, and the error is an unhandled rejection. Nothing else changes: the token set
  and \<open>localStorage\<close> stay as they were.
\<close>

theorem background_refresh_failure_swallowed:
  assumes "tokens s = Some t" and "idle s"
    and "js_gt (js_sub (accessTokenExpiry t) (Num now)) (Num 5000)"
    and "js_lt (js_sub (accessTokenExpiry t) (Num now)) (Num 600000)"
  shows "results (step now (GetTokenCall c) s) c = Some (Resolved (TokStr (accessToken t)))
     \<and> step now' (OauthResponse (length (oauth_calls s)) (Inl e)) (step now (GetTokenCall c) s)
         = (step now (GetTokenCall c) s)
             \<lparr>pending := removeAll (length (oauth_calls s)) (pending s),
              unhandled := unhandled s @ [e]\<rparr>
     \<and> results (step now' (OauthResponse (length (oauth_calls s)) (Inl e))
          (step now (GetTokenCall c) s)) c = Some (Resolved (TokStr (accessToken t)))
     \<and> unhandled (step now' (OauthResponse (length (oauth_calls s)) (Inl e))
          (step now (GetTokenCall c) s)) = unhandled s @ [e]
     \<and> reported (step now' (OauthResponse (length (oauth_calls s)) (Inl e))
          (step now (GetTokenCall c) s)) = reported s
     \<and> warnings (step now' (OauthResponse (length (oauth_calls s)) (Inl e))
          (step now (GetTokenCall c) s)) = warnings s
     \<and> emitted (step now' (OauthResponse (length (oauth_calls s)) (Inl e))
          (step now (GetTokenCall c) s)) = emitted s
     \<and> tokens (step now' (OauthResponse (length (oauth_calls s)) (Inl e))
          (step now (GetTokenCall c) s)) = Some t
     \<and> localStorage (step now' (OauthResponse (length (oauth_calls s)) (Inl e))
          (step now (GetTokenCall c) s)) = localStorage s"
  using assms(1,2) unfolding step_getToken_background[OF assms]
  by (simp add: step_def oauth_callback_def orphan_def idle_def)

theorem background_refresh_failure_swallowed_witness:
  "tokens (logged_in (session (Num 60000))) = Some (session (Num 60000))
   \<and> idle (logged_in (session (Num 60000)))
   \<and> js_gt (js_sub (accessTokenExpiry (session (Num 60000))) (Num 0)) (Num 5000)
   \<and> js_lt (js_sub (accessTokenExpiry (session (Num 60000))) (Num 0)) (Num 600000)
   \<and> results (run [(0, GetTokenCall 0), (9, OauthResponse 0 (Inl (RefreshError ''invalid_grant'')))]
        (logged_in (session (Num 60000)))) 0 = Some (Resolved (TokStr ''A''))
   \<and> unhandled (run [(0, GetTokenCall 0), (9, OauthResponse 0 (Inl (RefreshError ''invalid_grant'')))]
        (logged_in (session (Num 60000)))) = [RefreshError ''invalid_grant'']
   \<and> tokens (run [(0, GetTokenCall 0), (9, OauthResponse 0 (Inl (RefreshError ''invalid_grant'')))]
        (logged_in (session (Num 60000)))) = Some (session (Num 60000))"
proof -
  have h1: "tokens (logged_in (session (Num 60000))) = Some (session (Num 60000))"
    by (simp add: logged_in_fields)
  have h2: "idle (logged_in (session (Num 60000)))"
    by (rule idle_logged_in)
  have h3: "js_gt (js_sub (accessTokenExpiry (session (Num 60000))) (Num 0)) (Num 5000)"
    by (simp add: session_fields js_gt_def js_sub_def)
  have h4: "js_lt (js_sub (accessTokenExpiry (session (Num 60000))) (Num 0)) (Num 600000)"
    by (simp add: session_fields js_sub_def)
  have h5: "tokens (step 0 (GetTokenCall 0) (logged_in (session (Num 60000))))
      = Some (session (Num 60000))"
    by (simp add: step_getToken_background [OF h1 h2 h3 h4] logged_in_fields)
  show ?thesis
    using h1 h2 h3 h4 h5
      background_refresh_failure_swallowed [OF h1 h2 h3 h4, of 0 9 "RefreshError ''invalid_grant''"]
    by (simp add: logged_in_fields session_fields)
qed



text \<open>A refresh that nobody awaits succeeds: its callback writes the token set.\<close>

lemma step_response_unawaited:
  assumes "r \<in> set (pending s)" and "awaiting s = None" and "tokens s = Some t"
  shows "tokens (step now (OauthResponse r (Inr (a, expiresIn))) s)
     = Some (t\<lparr>accessToken := a,
               accessTokenExpiry := js_add (Num now) (js_mul expiresIn (Num 1000))\<rparr>)"
  using assms by (simp add: step_def oauth_callback_def orphan_def Let_def)

text \<open>
  C4, at a concrete run. The token set expires in 60 seconds; \<open>getToken()\<close> is called
  twice. Each call returns the cached token and leaves the mutex free with its refresh
  still pending: two refreshes are in flight at once. The answer to the first then
  writes \<open>accessToken\<close> and \<open>accessTokenExpiry\<close> while nobody holds the mutex.
\<close>

theorem background_refresh_outside_mutex:
  "locked (run [(0, GetTokenCall 0), (1, GetTokenCall 1)] (logged_in (session (Num 60000))))
     = False
   \<and> pending (run [(0, GetTokenCall 0), (1, GetTokenCall 1)] (logged_in (session (Num 60000))))
     = [0, 1]
   \<and> tokens (run [(0, GetTokenCall 0), (1, GetTokenCall 1)] (logged_in (session (Num 60000))))
     = Some (session (Num 60000))
   \<and> tokens (run [(0, GetTokenCall 0), (1, GetTokenCall 1),
               (2, OauthResponse 0 (Inr (''B'', Num 3600)))] (logged_in (session (Num 60000))))
     = Some \<lparr>refreshToken = ''R'', accessToken = ''B'', accessTokenExpiry = Num 3600002\<rparr>"
proof -
  let ?s = "logged_in (session (Num 60000))"
  have t: "tokens ?s = Some (session (Num 60000))"
    by (simp add: logged_in_fields)
  have gt0: "js_gt (js_sub (accessTokenExpiry (session (Num 60000))) (Num 0)) (Num 5000)"
    and lt0: "js_lt (js_sub (accessTokenExpiry (session (Num 60000))) (Num 0)) (Num 600000)"
    and gt1: "js_gt (js_sub (accessTokenExpiry (session (Num 60000))) (Num 1)) (Num 5000)"
    and lt1: "js_lt (js_sub (accessTokenExpiry (session (Num 60000))) (Num 1)) (Num 600000)"
    by (simp_all add: session_fields js_gt_def js_sub_def)
  let ?s1 = "step 0 (GetTokenCall 0) ?s"
  have s1: "?s1 = ?s\<lparr>oauth_calls := [''R''], pending := [0],
       results := [0 \<mapsto> Resolved (TokStr ''A'')]\<rparr>"
    by (simp add: step_getToken_background [OF t idle_logged_in gt0 lt0]
        logged_in_fields session_fields)
  have t1: "tokens ?s1 = Some (session (Num 60000))"
    by (simp add: s1 logged_in_fields)
  have i1: "idle ?s1"
    by (simp add: s1 idle_def logged_in_fields)
  let ?s2 = "step 1 (GetTokenCall 1) ?s1"
  have s2: "?s2 = ?s1\<lparr>oauth_calls := [''R'', ''R''], pending := [0, 1],
       results := (results ?s1)(1 \<mapsto> Resolved (TokStr ''A''))\<rparr>"
    by (simp add: step_getToken_background [OF t1 i1 gt1 lt1] session_fields)
        (simp add: s1 logged_in_fields)
  have r2: "run [(0, GetTokenCall 0), (1, GetTokenCall 1)] ?s = ?s2"
    by simp
  have r3: "run [(0, GetTokenCall 0), (1, GetTokenCall 1),
               (2, OauthResponse 0 (Inr (''B'', Num 3600)))] ?s
      = step 2 (OauthResponse 0 (Inr (''B'', Num 3600))) ?s2"
    by simp
  have a: "locked ?s2 = False" "pending ?s2 = [0, 1]" "tokens ?s2 = Some (session (Num 60000))"
    "awaiting ?s2 = None"
    unfolding s2 by (simp_all add: s1 logged_in_fields)
  have p: "0 \<in> set (pending ?s2)"
    using a(2) by simp
  have b: "tokens (step 2 (OauthResponse 0 (Inr (''B'', Num 3600))) ?s2)
      = Some \<lparr>refreshToken = ''R'', accessToken = ''B'', accessTokenExpiry = Num 3600002\<rparr>"
    using step_response_unawaited [OF p a(4) a(3), of 2 "''B''" "Num 3600"]
    by (simp add: session_def)
  show ?thesis
    unfolding r3 unfolding r2 using a b by simp
qed

text \<open>
  The same background refresh, with a logout before its answer: the logout is not held
  back, and the callback of the refresh writes a property of \<open>null\<close> and throws.
\<close>

lemma logout_during_background_refresh_throws:
  "tokens (run [(0, GetTokenCall 0), (1, LogOut), (2, OauthResponse 0 (Inr (''B'', Num 3600)))]
      (logged_in (session (Num 60000)))) = None
   \<and> uncaught (run [(0, GetTokenCall 0), (1, LogOut), (2, OauthResponse 0 (Inr (''B'', Num 3600)))]
      (logged_in (session (Num 60000)))) = [TypeError]"
  by (simp add: step_def runExclusive_def run_task_def setTokens_def fresh_state_def
      getToken_body_def refreshToken_fn_def drop_promise_def oauth_callback_def
      session_def js_sub_def js_gt_def logged_in_def Let_def)

text \<open>
  With a token set whose expiry is any number but \<open>NaN\<close>, the callback of \<open>getToken\<close> never
  returns the \<open>null\<close> of \<open>refreshPromise!\<close>: where the \<open>else\<close> branch is taken, a refresh
  was started.
\<close>

lemma getToken_body_null_only_nan:
  assumes "tokens s = Some t" and "fst (getToken_body now s) = Value TokNull"
  shows "accessTokenExpiry t = NaN"
  using assms
  by (cases "accessTokenExpiry t")
    (auto simp add: getToken_body_def refreshToken_fn_def js_sub_def js_gt_def Let_def
      split: if_splits)

text \<open>
  C10, at a concrete run. The login widget reports a login whose \<open>expiresIn\<close> is not a
  number (\<open>NaN\<close>), so the expiry stored is \<open>NaN\<close>. In \<open>getToken()\<close> both comparisons are then
  false: no refresh is started, the \<open>else\<close> branch is taken, and \<open>refreshPromise!\<close> is
  \<open>null\<close>: the call resolves to \<open>null\<close>, and no \<open>oauthToken\<close> call was made.
\<close>

theorem getToken_nan_expiry_resolves_null:
  "tokens (run [(0, Authenticated ''A'' ''R'' NaN)] fresh_state) = Some (session NaN)
   \<and> getToken_body 1 (logged_in (session NaN)) = (Value TokNull, logged_in (session NaN))
   \<and> results (run [(0, Authenticated ''A'' ''R'' NaN), (1, GetTokenCall 0)] fresh_state) 0
       = Some (Resolved TokNull)
   \<and> oauth_calls (run [(0, Authenticated ''A'' ''R'' NaN), (1, GetTokenCall 0)] fresh_state) = []"
  by (simp add: step_def runExclusive_def run_task_def setTokens_def fresh_state_def
      getToken_body_def session_def js_sub_def js_gt_def logged_in_def)

text \<open>
  C9, as stated, fails in two ways. When the expiry is not finite, \<open>JSON.stringify\<close>
  writes \<open>null\<close> for it, and the value loaded at the next start has
  \<open>accessTokenExpiry: null\<close>: so for \<open>NaN\<close>, \<open>Infinity\<close> and \<open>-Infinity\<close>. And while a
  \<open>getToken()\<close> call holds the mutex for its refresh, a call of \<open>setTokens\<close> only queues
  its callback: nothing is stored yet, and a start of the module at this moment loads
  the old token set.
\<close>

theorem setTokens_round_trip_counterexample:
  "initial_tokens (localStorage (runExclusive 0 (SetTokensTask (Some (session NaN))) fresh_state))
     = JSObject [(''refreshToken'', JSString ''R''), (''accessToken'', JSString ''A''),
         (''accessTokenExpiry'', JSNull)]
   \<and> initial_tokens (localStorage (runExclusive 0 (SetTokensTask (Some (session NaN))) fresh_state))
     \<noteq> tokens_value (Some (session NaN))
   \<and> initial_tokens (localStorage (runExclusive 0 (SetTokensTask (Some (session PosInf))) fresh_state))
     \<noteq> tokens_value (Some (session PosInf))
   \<and> initial_tokens (localStorage (runExclusive 0 (SetTokensTask (Some (session NegInf))) fresh_state))
     \<noteq> tokens_value (Some (session NegInf))
   \<and> locked (step 0 (GetTokenCall 0) (logged_in (session (Num 3000))))
   \<and> initial_tokens (localStorage
        (runExclusive 1 (SetTokensTask (Some (session (Num 7200000))))
          (step 0 (GetTokenCall 0) (logged_in (session (Num 3000))))))
     = tokens_value (Some (session (Num 3000)))
   \<and> initial_tokens (localStorage
        (runExclusive 1 (SetTokensTask (Some (session (Num 7200000))))
          (step 0 (GetTokenCall 0) (logged_in (session (Num 3000))))))
     \<noteq> tokens_value (Some (session (Num 7200000)))"
  by (simp add: initial_tokens_def step_def runExclusive_def run_task_def setTokens_def
      fresh_state_def getToken_body_def refreshToken_fn_def js_sub_def js_gt_def
      logged_in_def tokens_value_def session_def Let_def)

text \<open>
  C9, amended. When \<open>setTokens(t)\<close> is called with the mutex free, its callback runs at
  once, and the value that the next start of the module loads from the stored text is
  equal to \<open>t\<close> exactly when the expiry of \<open>t\<close> is a finite number; when the expiry is \<open>NaN\<close>,
  \<open>Infinity\<close> or \<open>-Infinity\<close>, the value loaded is \<open>t\<close> with \<open>accessTokenExpiry: null\<close>. The
  same holds of the callback of \<open>setTokens\<close> whenever it runs. When \<open>setTokens(t)\<close> is
  called while the mutex is held, the callback is queued and \<open>localStorage\<close> is not
  written by the call.
\<close>

theorem setTokens_round_trip_finite:
  "(initial_tokens (localStorage (setTokens (Some t) s)) = tokens_value (Some t)
      \<longleftrightarrow> (\<exists>e. accessTokenExpiry t = Num e))
   \<and> (accessTokenExpiry t = NaN \<or> accessTokenExpiry t = PosInf \<or> accessTokenExpiry t = NegInf
      \<longrightarrow> initial_tokens (localStorage (setTokens (Some t) s))
          = JSObject [(''refreshToken'', JSString (refreshToken t)),
              (''accessToken'', JSString (accessToken t)),
              (''accessTokenExpiry'', JSNull)])
   \<and> (\<not> locked s \<and> waiting s = []
      \<longrightarrow> localStorage (runExclusive now (SetTokensTask (Some t)) s)
          = localStorage (setTokens (Some t) s))
   \<and> (\<not> locked s \<and> waiting s = [] \<and> accessTokenExpiry t = Num e
      \<longrightarrow> initial_tokens (localStorage (runExclusive now (SetTokensTask (Some t)) s))
          = tokens_value (Some t))
   \<and> (locked s
      \<longrightarrow> localStorage (runExclusive now (SetTokensTask (Some t)) s) = localStorage s)"
proof (intro conjI impI)
  show "initial_tokens (localStorage (setTokens (Some t) s)) = tokens_value (Some t)
      \<longleftrightarrow> (\<exists>e. accessTokenExpiry t = Num e)"
    by (cases "accessTokenExpiry t")
      (simp_all add: initial_tokens_def setTokens_def tokens_value_def)
next
  assume "accessTokenExpiry t = NaN \<or> accessTokenExpiry t = PosInf \<or> accessTokenExpiry t = NegInf"
  then show "initial_tokens (localStorage (setTokens (Some t) s))
          = JSObject [(''refreshToken'', JSString (refreshToken t)),
              (''accessToken'', JSString (accessToken t)),
              (''accessTokenExpiry'', JSNull)]"
    by (auto simp add: initial_tokens_def setTokens_def tokens_value_def)
next
  assume "\<not> locked s \<and> waiting s = []"
  then show "localStorage (runExclusive now (SetTokensTask (Some t)) s)
          = localStorage (setTokens (Some t) s)"
    by (simp add: runExclusive_def run_task_def setTokens_def)
next
  assume "\<not> locked s \<and> waiting s = [] \<and> accessTokenExpiry t = Num e"
  then show "initial_tokens (localStorage (runExclusive now (SetTokensTask (Some t)) s))
          = tokens_value (Some t)"
    by (simp add: initial_tokens_def runExclusive_def run_task_def setTokens_def
        tokens_value_def)
next
  assume "locked s"
  then have "dispatch now (ts @ [SetTokensTask (Some t)]) s
      = s\<lparr>waiting := ts @ [SetTokensTask (Some t)]\<rparr>" for ts
    by (cases ts) simp_all
  then show "localStorage (runExclusive now (SetTokensTask (Some t)) s) = localStorage s"
    by (simp add: runExclusive_def)
qed

theorem setTokens_round_trip_finite_witness:
  "accessTokenExpiry (session (Num 1700000000000)) = Num 1700000000000
   \<and> \<not> locked fresh_state \<and> waiting fresh_state = []
   \<and> initial_tokens (localStorage
        (runExclusive 0 (SetTokensTask (Some (session (Num 1700000000000)))) fresh_state))
       = JSObject [(''refreshToken'', JSString ''R''), (''accessToken'', JSString ''A''),
           (''accessTokenExpiry'', JSNumber (Num 1700000000000))]
   \<and> accessTokenExpiry (session PosInf) = PosInf
   \<and> initial_tokens (localStorage (setTokens (Some (session PosInf)) fresh_state))
       = JSObject [(''refreshToken'', JSString ''R''), (''accessToken'', JSString ''A''),
           (''accessTokenExpiry'', JSNull)]
   \<and> locked (fresh_state\<lparr>locked := True\<rparr>)
   \<and> localStorage (runExclusive 0 (SetTokensTask (Some (session (Num 1700000000000))))
        (fresh_state\<lparr>locked := True\<rparr>)) = localStorage fresh_state"
proof -
  have h1: "accessTokenExpiry (session (Num 1700000000000)) = Num 1700000000000"
    by (simp add: session_fields)
  have h2: "\<not> locked fresh_state \<and> waiting fresh_state = []"
    by (simp add: fresh_state_def)
  have h3: "accessTokenExpiry (session PosInf) = PosInf"
    by (simp add: session_fields)
  have h4: "locked (fresh_state\<lparr>locked := True\<rparr>)"
    by simp
  show ?thesis
    using h1 h2 h3 h4
      setTokens_round_trip_finite [of "session (Num 1700000000000)" fresh_state 0 1700000000000]
      setTokens_round_trip_finite [of "session PosInf" fresh_state 0 0]
      setTokens_round_trip_finite [of "session (Num 1700000000000)"
        "fresh_state\<lparr>locked := True\<rparr>" 0 1700000000000]
    by (simp add: tokens_value_def session_fields)
qed

text \<open>The token machinery never writes the key \<open>'last_jwt'\<close>.\<close>

lemma run_task_last_jwt:
  "last_jwt_item (localStorage (run_task now t s)) = last_jwt_item (localStorage s)"
  by (cases t)
    (auto simp add: run_task_def setTokens_def getToken_body_def refreshToken_fn_def
      drop_promise_def Let_def
      split: option.splits prod.splits cb_result.splits promise.splits if_splits)

lemma dispatch_last_jwt:
  "last_jwt_item (localStorage (dispatch now ts s)) = last_jwt_item (localStorage s)"
  by (induction ts arbitrary: s) (simp_all add: run_task_last_jwt)

lemma step_last_jwt:
  "last_jwt_item (localStorage (step now ev s)) = last_jwt_item (localStorage s)"
  by (cases ev)
    (auto simp add: step_def runExclusive_def release_def oauth_callback_def orphan_def
      dispatch_last_jwt Let_def
      split: option.splits prod.splits sum.splits settled.splits)

text \<open>What \<open>getLastUserData\<close> leaves of the state: at most a warning more.\<close>

lemma getLastUserData_state:
  "localStorage (snd (getLastUserData env s)) = localStorage s"
  "reported (snd (getLastUserData env s)) = reported s"
  "emitted (snd (getLastUserData env s)) = emitted s"
  by (simp_all add: getLastUserData_def split: sum.splits)

text \<open>
  The \<open>try\<close> block throws exactly when the token fetch rejects, or the \<open>GET\<close> rejects, or
  the verification of a body that is not empty throws.
\<close>

lemma try_block_throws:
  "try_block env token_outcome s = Inl e \<longleftrightarrow>
     token_outcome = Rejected e
     \<or> (\<exists>a. token_outcome = Resolved (TokStr a) \<and> a \<noteq> []
           \<and> fetch_app_data env a = Rejected e)
     \<or> (\<exists>a r. token_outcome = Resolved (TokStr a) \<and> a \<noteq> []
           \<and> fetch_app_data env a = Resolved r \<and> body r \<noteq> []
           \<and> jwt_verify env (body r) = Inl e)"
proof (cases token_outcome)
  case (Rejected e')
  then show ?thesis
    by (simp add: try_block_def requestUserData_def)
next
  case (Resolved token)
  show ?thesis
  proof (cases "truthy_tok token")
    case False
    then show ?thesis
      using Resolved
      by (cases token)
        (simp_all add: try_block_def requestUserData_def parseUserData_def truthy_string_def)
  next
    case True
    then obtain a where a: "token = TokStr a" "a \<noteq> []"
      by (cases token) (simp_all add: truthy_string_def)
    show ?thesis
    proof (cases "fetch_app_data env a")
      case (Rejected e')
      then show ?thesis
        using Resolved a
        by (simp add: try_block_def requestUserData_def truthy_string_def)
    next
      case answer: (Resolved r)
      then show ?thesis
        using Resolved a
        by (simp add: try_block_def requestUserData_def parseUserData_def truthy_string_def
            Let_def split: sum.splits)
    qed
  qed
qed

text \<open>
  The promise of \<open>getLatestUserData()\<close> is always resolved. When the \<open>try\<close> block throws
  an error \<open>e\<close>, the result is the user that \<open>getLastUserData\<close> gave at the start, \<open>e\<close> is
  passed to \<open>reportError\<close>, \<open>authorization_error\<close> is emitted with \<open>e\<close>, and \<open>localStorage\<close> is
  as before. (\<open>reportError\<close> and the listeners of \<open>authorization_error\<close> are taken to
  return: the one listener this module registers is the \<open>reject\<close> of the login promise.)
\<close>

lemma getLatestUserData_resolved:
  "\<exists>u s'. getLatestUserData env token_outcome s = (Resolved u, s')"
  by (simp add: getLatestUserData_def catch_block_def split: prod.splits sum.splits)

lemma getLatestUserData_caught:
  assumes "try_block env token_outcome (snd (getLastUserData env s)) = Inl e"
  shows "fst (getLatestUserData env token_outcome s) = Resolved (fst (getLastUserData env s))"
    and "reported (snd (getLatestUserData env token_outcome s)) = reported s @ [e]"
    and "emitted (snd (getLatestUserData env token_outcome s))
            = emitted s @ [(''authorization_error'', e)]"
    and "localStorage (snd (getLatestUserData env token_outcome s)) = localStorage s"
proof -
  obtain u0 s0 where last: "getLastUserData env s = (u0, s0)"
    by (cases "getLastUserData env s")
  have res: "getLatestUserData env token_outcome s = catch_block e u0 s0"
    using assms last by (simp add: getLatestUserData_def)
  have s0: "localStorage s0 = localStorage s" "reported s0 = reported s" "emitted s0 = emitted s"
    using getLastUserData_state [of env s] last by simp_all
  show "fst (getLatestUserData env token_outcome s) = Resolved (fst (getLastUserData env s))"
    and "reported (snd (getLatestUserData env token_outcome s)) = reported s @ [e]"
    and "emitted (snd (getLatestUserData env token_outcome s))
            = emitted s @ [(''authorization_error'', e)]"
    and "localStorage (snd (getLatestUserData env token_outcome s)) = localStorage s"
    by (simp_all add: res last s0 catch_block_def)
qed

lemma subscriber_fields:
  "tokens subscriber = Some (session (Num 3600000))"
  "localStorage subscriber
     = \<lparr>tokens_item = Some (JSON_stringify (tokens_value (Some (session (Num 3600000))))),
        last_jwt_item = Some ''good.jwt''\<rparr>"
  "locked subscriber = False"
  "waiting subscriber = []"
  "results subscriber = Map.empty"
  "reported subscriber = []"
  "emitted subscriber = []"
  "warnings subscriber = []"
  by (simp_all add: subscriber_def logged_in_def setTokens_def fresh_state_def)

text \<open>
  C3, at a concrete run. A subscriber is logged in, with a token set good for an hour
  and the signed token of the last fetch stored. \<open>getToken()\<close> resolves to the access
  token. The endpoint fails: it answers 500 with an empty body. \<open>fetch\<close> resolves all the
  same, the module does not look at the status, and \<open>parseUserData\<close> returns the empty
  user for the empty body without throwing. So \<open>getLatestUserData()\<close> resolves to the
  empty user, not to the subscriber that \<open>getLastUserData()\<close> gave at the start; nothing
  is reported, nothing is emitted, and the stored token is overwritten with the empty
  string.
\<close>

theorem getLatestUserData_empty_answer_no_fallback:
  "results (step 0 (GetTokenCall 0) subscriber) 0 = Some (Resolved (TokStr ''A''))
   \<and> fetch_app_data outage_env ''A'' = Resolved \<lparr>status = 500, body = ''''\<rparr>
   \<and> fst (getLastUserData outage_env subscriber)
       = \<lparr>User.email = Some ''a@b.c'',
          subscription = Some \<lparr>id' = Num 7, plan = Some ''pro-monthly'',
                                expiry = Date (Num 1700000000000)\<rparr>\<rparr>
   \<and> fst (getLatestUserData outage_env (Resolved (TokStr ''A'')) subscriber)
       = Resolved \<lparr>User.email = None, subscription = None\<rparr>
   \<and> reported (snd (getLatestUserData outage_env (Resolved (TokStr ''A'')) subscriber)) = []
   \<and> emitted (snd (getLatestUserData outage_env (Resolved (TokStr ''A'')) subscriber)) = []
   \<and> last_jwt_item (localStorage
        (snd (getLatestUserData outage_env (Resolved (TokStr ''A'')) subscriber))) = Some ''''"
proof -
  have call: "results (step 0 (GetTokenCall 0) subscriber) 0 = Some (Resolved (TokStr ''A''))"
    by (simp add: step_def runExclusive_def run_task_def getToken_body_def subscriber_fields
        session_fields js_sub_def js_gt_def drop_promise_def)
  have answer: "fetch_app_data outage_env ''A'' = Resolved \<lparr>status = 500, body = ''''\<rparr>"
    by (simp add: outage_env_def)
  have verify: "jwt_verify outage_env = jwt_verify demo_env"
    "getSubscriptionPlanCode outage_env = getSubscriptionPlanCode demo_env"
    "truthy_plan outage_env = truthy_plan demo_env"
    by (simp_all add: outage_env_def)
  have last: "getLastUserData outage_env subscriber
       = (\<lparr>User.email = Some ''a@b.c'',
           subscription = Some \<lparr>id' = Num 7, plan = Some ''pro-monthly'',
                                 expiry = Date (Num 1700000000000)\<rparr>\<rparr>, subscriber)"
    by (simp add: getLastUserData_def parseUserData_def subscriber_fields verify
        demo_env_def every_def truthy_string_def truthy_date_def)
  have tried: "try_block outage_env (Resolved (TokStr ''A'')) subscriber
       = Inr (\<lparr>User.email = None, subscription = None\<rparr>,
              subscriber\<lparr>localStorage := (localStorage subscriber)\<lparr>last_jwt_item := Some ''''\<rparr>\<rparr>)"
    by (simp add: try_block_def requestUserData_def parseUserData_def answer truthy_string_def)
  have res: "getLatestUserData outage_env (Resolved (TokStr ''A'')) subscriber
       = (Resolved \<lparr>User.email = None, subscription = None\<rparr>,
          subscriber\<lparr>localStorage := (localStorage subscriber)\<lparr>last_jwt_item := Some ''''\<rparr>\<rparr>)"
    by (simp add: getLatestUserData_def last tried)
  show ?thesis
    using call answer by (simp add: res last subscriber_fields)
qed

text \<open>
  C5, as stated, fails when the user is logged out: \<open>getToken()\<close> resolves to
  \<open>undefined\<close>, \<open>requestUserData\<close> returns the empty string without any fetch,
  \<open>parseUserData\<close> returns the empty user for it without verifying anything, and the
  empty string is written over the stored token.
\<close>

theorem last_jwt_logged_out_counterexample:
  "results (step 0 (GetTokenCall 0) (remembered ''good.jwt'')) 0 = Some (Resolved TokUndefined)
   \<and> last_jwt_item (localStorage (remembered ''good.jwt'')) = Some ''good.jwt''
   \<and> last_jwt_item (localStorage
        (snd (getLatestUserData demo_env (Resolved TokUndefined) (remembered ''good.jwt''))))
       = Some ''''
   \<and> last_jwt_item (localStorage
        (snd (getLatestUserData demo_env (Resolved TokUndefined) (remembered ''good.jwt''))))
       \<noteq> last_jwt_item (localStorage (remembered ''good.jwt''))"
  by (simp add: step_def runExclusive_def run_task_def getToken_body_def remembered_def
      fresh_state_def getLatestUserData_def getLastUserData_def try_block_def
      requestUserData_def parseUserData_def demo_env_def every_def truthy_string_def
      truthy_date_def)

text \<open>
  C5, amended. A body that was fetched, is not empty and whose signature and claims
  are verified is written over the stored token. When the user is logged out
  (\<open>getToken()\<close> resolves to \<open>undefined\<close>), the empty string is written over it. When the
  token fetch rejects, when the \<open>GET\<close> rejects, and when the verification of a fetched
  body that is not empty throws, the stored token is left unchanged.
\<close>

theorem last_jwt_written_after_verification:
  "(token_outcome = Resolved (TokStr b) \<and> b \<noteq> [] \<and> fetch_app_data env b = Resolved r
      \<and> body r \<noteq> [] \<and> jwt_verify env (body r) = Inr a
     \<longrightarrow> last_jwt_item (localStorage (snd (getLatestUserData env token_outcome s)))
          = Some (body r))
   \<and> (token_outcome = Resolved TokUndefined
     \<longrightarrow> last_jwt_item (localStorage (snd (getLatestUserData env token_outcome s))) = Some [])
   \<and> (token_outcome = Rejected e
     \<longrightarrow> last_jwt_item (localStorage (snd (getLatestUserData env token_outcome s)))
          = last_jwt_item (localStorage s))
   \<and> (token_outcome = Resolved (TokStr b) \<and> b \<noteq> [] \<and> fetch_app_data env b = Rejected e
     \<longrightarrow> last_jwt_item (localStorage (snd (getLatestUserData env token_outcome s)))
          = last_jwt_item (localStorage s))
   \<and> (token_outcome = Resolved (TokStr b) \<and> b \<noteq> [] \<and> fetch_app_data env b = Resolved r
      \<and> body r \<noteq> [] \<and> jwt_verify env (body r) = Inl e
     \<longrightarrow> last_jwt_item (localStorage (snd (getLatestUserData env token_outcome s)))
          = last_jwt_item (localStorage s))"
proof -
  obtain u0 s0 where last: "getLastUserData env s = (u0, s0)"
    by (cases "getLastUserData env s")
  have s0: "localStorage s0 = localStorage s"
    using getLastUserData_state(1) [of env s] last by simp
  have unchanged: "try_block env token_outcome (snd (getLastUserData env s)) = Inl e \<Longrightarrow>
      last_jwt_item (localStorage (snd (getLatestUserData env token_outcome s)))
        = last_jwt_item (localStorage s)"
    by (simp add: getLatestUserData_caught(4))
  have written: "requestUserData env token_outcome = Inr j
      \<Longrightarrow> parseUserData env (Some j) = Inr u
      \<Longrightarrow> last_jwt_item (localStorage (snd (getLatestUserData env token_outcome s))) = Some j"
    for j u
    by (simp add: getLatestUserData_def last try_block_def)
  show ?thesis
  proof (intro conjI impI)
    assume h: "token_outcome = Resolved (TokStr b) \<and> b \<noteq> [] \<and> fetch_app_data env b = Resolved r
      \<and> body r \<noteq> [] \<and> jwt_verify env (body r) = Inr a"
    then have "requestUserData env token_outcome = Inr (body r)"
      by (simp add: requestUserData_def truthy_string_def)
    moreover from h have "\<exists>u. parseUserData env (Some (body r)) = Inr u"
      by (simp add: parseUserData_def truthy_string_def Let_def)
    ultimately show "last_jwt_item (localStorage (snd (getLatestUserData env token_outcome s)))
          = Some (body r)"
      using written by blast
  next
    assume h: "token_outcome = Resolved TokUndefined"
    then have "requestUserData env token_outcome = Inr []"
      by (simp add: requestUserData_def)
    moreover have "\<exists>u. parseUserData env (Some []) = Inr u"
      by (simp add: parseUserData_def truthy_string_def)
    ultimately show "last_jwt_item (localStorage (snd (getLatestUserData env token_outcome s)))
          = Some []"
      using written by blast
  next
    assume "token_outcome = Rejected e"
    then show "last_jwt_item (localStorage (snd (getLatestUserData env token_outcome s)))
          = last_jwt_item (localStorage s)"
      using unchanged by (simp add: try_block_throws)
  next
    assume "token_outcome = Resolved (TokStr b) \<and> b \<noteq> [] \<and> fetch_app_data env b = Rejected e"
    then show "last_jwt_item (localStorage (snd (getLatestUserData env token_outcome s)))
          = last_jwt_item (localStorage s)"
      using unchanged by (simp add: try_block_throws)
  next
    assume "token_outcome = Resolved (TokStr b) \<and> b \<noteq> [] \<and> fetch_app_data env b = Resolved r
      \<and> body r \<noteq> [] \<and> jwt_verify env (body r) = Inl e"
    then show "last_jwt_item (localStorage (snd (getLatestUserData env token_outcome s)))
          = last_jwt_item (localStorage s)"
      using unchanged by (simp add: try_block_throws)
  qed
qed

theorem last_jwt_written_after_verification_witness:
  "fetch_app_data demo_env ''A'' = Resolved \<lparr>status = 200, body = ''good.jwt''\<rparr>
   \<and> (\<exists>a. jwt_verify demo_env ''good.jwt'' = Inr a)
   \<and> last_jwt_item (localStorage
        (snd (getLatestUserData demo_env (Resolved (TokStr ''A'')) fresh_state)))
       = Some ''good.jwt''
   \<and> last_jwt_item (localStorage
        (snd (getLatestUserData demo_env (Resolved TokUndefined) (remembered ''good.jwt''))))
       = Some ''''
   \<and> last_jwt_item (localStorage
        (snd (getLatestUserData demo_env (Rejected (RefreshError ''invalid_grant''))
           (remembered ''good.jwt''))))
       = Some ''good.jwt''
   \<and> fetch_app_data demo_env ''B'' = Rejected (FetchError ''network'')
   \<and> last_jwt_item (localStorage
        (snd (getLatestUserData demo_env (Resolved (TokStr ''B'')) (remembered ''good.jwt''))))
       = Some ''good.jwt''
   \<and> fetch_app_data tampered_env ''A'' = Resolved \<lparr>status = 200, body = ''bad.jwt''\<rparr>
   \<and> jwt_verify tampered_env ''bad.jwt'' = Inl (JwtError ''invalid token'')
   \<and> last_jwt_item (localStorage
        (snd (getLatestUserData tampered_env (Resolved (TokStr ''A'')) (remembered ''good.jwt''))))
       = Some ''good.jwt''"
proof -
  let ?good = "\<lparr>status = 200, body = ''good.jwt''\<rparr>"
  let ?bad = "\<lparr>status = 200, body = ''bad.jwt''\<rparr>"
  have h1: "fetch_app_data demo_env ''A'' = Resolved ?good"
    by (simp add: demo_env_def)
  obtain a where h2: "jwt_verify demo_env ''good.jwt'' = Inr a"
    by (simp add: demo_env_def)
  have h3: "fetch_app_data demo_env ''B'' = Rejected (FetchError ''network'')"
    by (simp add: demo_env_def)
  have h4: "fetch_app_data tampered_env ''A'' = Resolved ?bad"
    by (simp add: tampered_env_def)
  have h5: "jwt_verify tampered_env ''bad.jwt'' = Inl (JwtError ''invalid token'')"
    by (simp add: tampered_env_def demo_env_def)
  have old: "last_jwt_item (localStorage (remembered ''good.jwt'')) = Some ''good.jwt''"
    by (simp add: remembered_def)
  show ?thesis
    using h1 h2 h3 h4 h5 old
      last_jwt_written_after_verification [of "Resolved (TokStr ''A'')" "''A''" demo_env ?good a
        fresh_state "JwtError ''invalid token''"]
      last_jwt_written_after_verification [of "Resolved TokUndefined" "''A''" demo_env ?good a
        "remembered ''good.jwt''" "JwtError ''invalid token''"]
      last_jwt_written_after_verification [of "Rejected (RefreshError ''invalid_grant'')" "''A''"
        demo_env ?good a "remembered ''good.jwt''" "RefreshError ''invalid_grant''"]
      last_jwt_written_after_verification [of "Resolved (TokStr ''B'')" "''B''" demo_env ?good a
        "remembered ''good.jwt''" "FetchError ''network''"]
      last_jwt_written_after_verification [of "Resolved (TokStr ''A'')" "''A''" tampered_env ?bad a
        "remembered ''good.jwt''" "JwtError ''invalid token''"]
    by simp
qed

text \<open>
  C7. A verified payload whose plan id \<open>getSubscriptionPlanCode\<close> does not know gives a
  user with the email of the payload and no subscription. And whenever
  \<open>parseUserData\<close> returns a user with a subscription, the subscription is the one built
  from a verified payload, its id is truthy, its plan is a plan code that was found,
  and its expiry is the \<open>Date\<close> made of the payload's expiry; the email is there too.
\<close>

theorem parseUserData_subscription_all_or_nothing:
  "(j \<noteq> [] \<and> jwt_verify env j = Inr a
      \<and> getSubscriptionPlanCode env (subscription_plan_id a) = None
     \<longrightarrow> parseUserData env (Some j)
          = Inr \<lparr>User.email = Some (AppData.email a), subscription = None\<rparr>)
   \<and> (parseUserData env userJwt = Inr u \<and> subscription u = Some sub
     \<longrightarrow> (\<exists>j' a' p. userJwt = Some j' \<and> jwt_verify env j' = Inr a'
            \<and> User.email u = Some (AppData.email a')
            \<and> id' sub = subscription_id a' \<and> truthy_number (id' sub)
            \<and> getSubscriptionPlanCode env (subscription_plan_id a') = Some p
            \<and> plan sub = Some p \<and> truthy_plan env p
            \<and> expiry sub = new_Date (subscription_expiry a')))"
proof (intro conjI impI)
  assume "j \<noteq> [] \<and> jwt_verify env j = Inr a
      \<and> getSubscriptionPlanCode env (subscription_plan_id a) = None"
  then show "parseUserData env (Some j)
      = Inr \<lparr>User.email = Some (AppData.email a), subscription = None\<rparr>"
    by (simp add: parseUserData_def every_def truthy_string_def)
next
  assume "parseUserData env userJwt = Inr u \<and> subscription u = Some sub"
  then show "\<exists>j' a' p. userJwt = Some j' \<and> jwt_verify env j' = Inr a'
            \<and> User.email u = Some (AppData.email a')
            \<and> id' sub = subscription_id a' \<and> truthy_number (id' sub)
            \<and> getSubscriptionPlanCode env (subscription_plan_id a') = Some p
            \<and> plan sub = Some p \<and> truthy_plan env p
            \<and> expiry sub = new_Date (subscription_expiry a')"
    by (auto simp add: parseUserData_def every_def Let_def
        split: option.splits if_splits sum.splits)
qed

theorem parseUserData_subscription_all_or_nothing_witness:
  "jwt_verify demo_env ''odd.jwt''
       = Inr \<lparr>AppData.email = ''a@b.c'', subscription_id = Num 7,
              subscription_plan_id = Num 99, subscription_expiry = Num 1700000000000\<rparr>
   \<and> getSubscriptionPlanCode demo_env (Num 99) = None
   \<and> parseUserData demo_env (Some ''odd.jwt'')
       = Inr \<lparr>User.email = Some ''a@b.c'', subscription = None\<rparr>
   \<and> parseUserData demo_env (Some ''good.jwt'')
       = Inr \<lparr>User.email = Some ''a@b.c'',
          subscription = Some \<lparr>id' = Num 7, plan = Some ''pro-monthly'',
                                expiry = Date (Num 1700000000000)\<rparr>\<rparr>
   \<and> truthy_number (Num 7) \<and> truthy_plan demo_env ''pro-monthly''"
proof -
  let ?a = "\<lparr>AppData.email = ''a@b.c'', subscription_id = Num 7,
              subscription_plan_id = Num 99, subscription_expiry = Num 1700000000000\<rparr>"
  let ?sub = "\<lparr>id' = Num 7, plan = Some ''pro-monthly'', expiry = Date (Num 1700000000000)\<rparr>"
  let ?u = "\<lparr>User.email = Some ''a@b.c'', subscription = Some ?sub\<rparr>"
  have h1: "jwt_verify demo_env ''odd.jwt'' = Inr ?a"
    by (simp add: demo_env_def)
  have h2: "getSubscriptionPlanCode demo_env (Num 99) = None"
    by (simp add: demo_env_def)
  have h3: "parseUserData demo_env (Some ''good.jwt'') = Inr ?u"
    by (simp add: parseUserData_def demo_env_def every_def truthy_string_def truthy_date_def)
  have h4: "subscription ?u = Some ?sub"
    by simp
  show ?thesis
    using h1 h2 h3 h4
      parseUserData_subscription_all_or_nothing [of "''odd.jwt''" demo_env ?a
        "Some ''good.jwt''" ?u ?sub]
    by (auto simp add: demo_env_def)
qed

end
